theory Spec2Isabelle
  imports Main "HOL-Library.AList"
begin

section \<open>JavaScript values and objects\<close>

text \<open>
  The gateway is JavaScript: header values, stored attributes, GraphQL arguments and
  error extensions are dynamically typed. \<open>jsval\<close> holds the values the code tests or
  copies; an object is an association list with distinct keys in insertion order.
  Numbers are the integers (a stored attribute is never NaN).
\<close>

datatype jsval =
    JUndefined
  | JNull
  | JBool bool
  | JNum int
  | JStr string
  | JArr "jsval list"
  | JObj "(string \<times> jsval) list"

type_synonym obj = "(string \<times> jsval) list"

text \<open>Truthiness, as \<open>!v\<close>, \<open>v || w\<close> and \<open>if (v)\<close> use it.\<close>

fun truthy :: "jsval \<Rightarrow> bool" where
  "truthy JUndefined = False"
| "truthy JNull = False"
| "truthy (JBool b) = b"
| "truthy (JNum n) = (n \<noteq> 0)"
| "truthy (JStr s) = (s \<noteq> [])"
| "truthy (JArr xs) = True"
| "truthy (JObj kvs) = True"

text \<open>\<open>o.k\<close>: a missing property reads as \<open>undefined\<close>.\<close>

definition get_prop :: "obj \<Rightarrow> string \<Rightarrow> jsval" where
  "get_prop ob k = (case map_of ob k of None \<Rightarrow> JUndefined | Some v \<Rightarrow> v)"

text \<open>
  \<open>{ ...o, k: v }\<close> and \<open>o.k = v\<close>: an existing key keeps its place and takes the new
  value, a new key goes last.
\<close>

definition set_prop :: "string \<Rightarrow> jsval \<Rightarrow> obj \<Rightarrow> obj" where
  "set_prop k v ob = AList.update k v ob"

text \<open>\<open>delete o.k\<close>.\<close>

definition delete_prop :: "string \<Rightarrow> obj \<Rightarrow> obj" where
  "delete_prop k ob = AList.delete k ob"

text \<open>
  \<open>{ ...v }\<close> for a value \<open>v\<close>: the entries of an object, nothing for \<open>undefined\<close> or
  \<open>null\<close>. (The extensions entry of a GraphQL error is a map or absent; the other
  values spread to nothing here.)
\<close>

fun spread :: "jsval \<Rightarrow> obj" where
  "spread (JObj kvs) = kvs"
| "spread v = []"

text \<open>
  \<open>String.prototype.trim\<close> on a header value, whose characters are single bytes:
  tab, line feed, vertical tab, form feed, carriage return, space and no-break space
  are removed at both ends.
\<close>

definition is_ws :: "char \<Rightarrow> bool" where
  "is_ws c = (c \<in> set [CHR 0x09, CHR 0x0A, CHR 0x0B, CHR 0x0C, CHR 0x0D, CHR 0x20, CHR 0xA0])"

definition trim :: "string \<Rightarrow> string" where
  "trim s = rev (dropWhile is_ws (rev (dropWhile is_ws s)))"

section \<open>Errors\<close>

text \<open>
  The class of an error object is what \<open>instanceof\<close> tests. \<open>AuthenticationError\<close>,
  \<open>UserInputError\<close>, \<open>SyntaxError\<close>, \<open>ForbiddenError\<close> and \<open>ValidationError\<close> are Apollo's
  subclasses of \<open>ApolloError\<close>; none of them is a subclass of another, so
  \<open>e instanceof AuthenticationError\<close> is \<open>cls e = AuthenticationError\<close>.
\<close>

datatype err_class =
    Error
  | GraphQLError
  | ApolloError
  | AuthenticationError
  | UserInputError
  | SyntaxError
  | ForbiddenError
  | ValidationError

text \<open>
  An error object: the arguments of the \<open>GraphQLError\<close> constructor, the \<open>stack\<close> every
  JavaScript error carries, and \<open>extensions\<close>, which is \<open>None\<close> when the property is
  \<open>undefined\<close> or has been deleted.
\<close>

record js_error =
  cls :: err_class
  message :: jsval
  nodes :: jsval
  source :: jsval
  positions :: jsval
  path :: jsval
  originalError :: jsval
  extensions :: "obj option"
  stack :: "string option"

text \<open>The trace text itself is not modelled, only that the property is there.\<close>

definition captured_stack :: string where
  "captured_stack = ''Error\<newline>    at <anonymous>''"

text \<open>\<open>new Error(msg)\<close>.\<close>

definition new_Error :: "string \<Rightarrow> js_error" where
  "new_Error msg =
     \<lparr>cls = Error, message = JStr msg, nodes = JUndefined, source = JUndefined,
      positions = JUndefined, path = JUndefined, originalError = JUndefined,
      extensions = None, stack = Some captured_stack\<rparr>"

text \<open>
  \<open>new GraphQLError(message, nodes, source, positions, path, originalError, extensions)\<close>
  with an extensions object given.
\<close>

definition new_GraphQLError ::
    "jsval \<Rightarrow> jsval \<Rightarrow> jsval \<Rightarrow> jsval \<Rightarrow> jsval \<Rightarrow> jsval \<Rightarrow> obj \<Rightarrow> js_error" where
  "new_GraphQLError msg nds src pos pth orig ext =
     \<lparr>cls = GraphQLError, message = msg, nodes = nds, source = src, positions = pos,
      path = pth, originalError = orig, extensions = Some ext,
      stack = Some captured_stack\<rparr>"

text \<open>
  \<open>new AuthenticationError(msg)\<close> of apollo-server: an \<open>ApolloError\<close> whose extensions
  carry the code \<open>UNAUTHENTICATED\<close>.
\<close>

definition new_AuthenticationError :: "string \<Rightarrow> js_error" where
  "new_AuthenticationError msg =
     \<lparr>cls = AuthenticationError, message = JStr msg, nodes = JUndefined,
      source = JUndefined, positions = JUndefined, path = JUndefined,
      originalError = JUndefined,
      extensions = Some [(''code'', JStr ''UNAUTHENTICATED'')],
      stack = Some captured_stack\<rparr>"

text \<open>\<open>err.extensions?.code\<close>.\<close>

definition ext_code :: "js_error \<Rightarrow> jsval" where
  "ext_code err = (case extensions err of None \<Rightarrow> JUndefined | Some x \<Rightarrow> get_prop x ''code'')"

section \<open>Identity resolver (index.js, getAffinityFromApiKey)\<close>

text \<open>
  The table of API users is outside the program. \<open>ddbDocClient.get(...).promise()\<close>
  either rejects (\<open>Inl\<close>, with the message of the SDK's error) or resolves to a record
  whose \<open>Item\<close> is absent (\<open>Inr None\<close>) or is the stored item.
\<close>

type_synonym users_table = "string \<Rightarrow> string + obj option"

text \<open>\<open>return apiKeyRecord.Item?.affinity || null\<close>.\<close>

definition getAffinityFromApiKey :: "users_table \<Rightarrow> string \<Rightarrow> string + jsval" where
  "getAffinityFromApiKey tbl apiKey =
     (case tbl apiKey of
        Inl e \<Rightarrow> Inl e
      | Inr apiKeyRecord \<Rightarrow>
          (let a = (case apiKeyRecord of None \<Rightarrow> JUndefined
                    | Some item \<Rightarrow> get_prop item ''affinity'')
           in Inr (if truthy a then a else JNull)))"

section \<open>Context construction (index.js, the context function)\<close>

text \<open>
  The per-request context object is \<open>{ affinity }\<close> or \<open>{ contextError: err }\<close>; the
  property that is not set reads as \<open>undefined\<close>.
\<close>

record gw_context =
  affinity :: jsval
  contextError :: "js_error option"

text \<open>
  \<open>hdr\<close> is \<open>express.req.headers.authorization\<close>: \<open>None\<close> when the header is
  not sent. An error the table lookup rejects with is caught like the two
  authentication errors and stored in the context; it is the SDK's error, a plain
  \<open>Error\<close> to \<open>instanceof\<close>.
\<close>

definition context_fn :: "users_table \<Rightarrow> string option \<Rightarrow> gw_context" where
  "context_fn tbl hdr =
     (case hdr of
        None \<Rightarrow>
          \<lparr>affinity = JUndefined,
           contextError = Some (new_AuthenticationError ''Missing authorization header'')\<rparr>
      | Some apiKey \<Rightarrow>
          if apiKey = [] then
            \<lparr>affinity = JUndefined,
             contextError = Some (new_AuthenticationError ''Missing authorization header'')\<rparr>
          else
            (case getAffinityFromApiKey tbl (trim apiKey) of
               Inl e \<Rightarrow> \<lparr>affinity = JUndefined, contextError = Some (new_Error e)\<rparr>
             | Inr a \<Rightarrow>
                 if \<not> truthy a then
                   \<lparr>affinity = JUndefined,
                    contextError =
                      Some (new_AuthenticationError ''Invalid authorization header'')\<rparr>
                 else \<lparr>affinity = a, contextError = None\<rparr>))"

section \<open>The fault-tracking service and the log (plugins.js)\<close>

text \<open>
  What a request leaves behind: the lines written with lambda-log and \<open>console.log\<close>
  (the label of an info line, the error of an error line), the calls made to
  \<open>FictionalErrorTrackingService\<close> (\<open>captured\<close>: the arguments of \<open>captureException\<close>
  in order, \<open>extraInfo\<close>: those of \<open>setExtraInfo\<close>, \<open>flushes\<close>: the number of \<open>flush\<close>
  calls), and the calls delegated to the backend.
\<close>

datatype log_entry = LogInfo string | LogError js_error

record delegate_call =
  operation :: string
  fieldName :: string
  args :: obj

record world =
  logged :: "log_entry list"
  captured :: "js_error list"
  extraInfo :: "(string \<times> jsval) list"
  flushes :: nat
  delegated :: "delegate_call list"

definition log_info :: "string \<Rightarrow> world \<Rightarrow> world" where
  "log_info label w = w\<lparr>logged := logged w @ [LogInfo label]\<rparr>"

definition log_error :: "js_error \<Rightarrow> world \<Rightarrow> world" where
  "log_error err w = w\<lparr>logged := logged w @ [LogError err]\<rparr>"

definition captureException :: "js_error \<Rightarrow> world \<Rightarrow> world" where
  "captureException exception w = log_error exception (w\<lparr>captured := captured w @ [exception]\<rparr>)"

definition setExtraInfo :: "string \<Rightarrow> jsval \<Rightarrow> world \<Rightarrow> world" where
  "setExtraInfo extraInfoFieldName extraInfoFieldValue w =
     log_info ''Setting extraInfo in FictionalErrorTrackingService''
       (w\<lparr>extraInfo := extraInfo w @ [(extraInfoFieldName, extraInfoFieldValue)]\<rparr>)"

definition flush :: "world \<Rightarrow> world" where
  "flush w =
     log_info ''flushing errors to FictionalErrorTrackingService with timeout''
       (w\<lparr>flushes := Suc (flushes w)\<rparr>)"

section \<open>The errorTracker plugin (plugins.js)\<close>

text \<open>
  The other plugin of the file, \<open>requestResponseLogger\<close>, only writes the request and
  the response to the log and decides nothing; it is left out.
\<close>

record gql_request =
  authorization :: "string option"
  query :: jsval
  variables :: jsval

text \<open>The three variables \<open>requestDidStart\<close> closes over.\<close>

record flags =
  graphqlParsingFailure :: bool
  graphqlValidationFailure :: bool
  graphqlUnknownOperationName :: bool

definition init_flags :: flags where
  "init_flags =
     \<lparr>graphqlParsingFailure = False, graphqlValidationFailure = False,
      graphqlUnknownOperationName = False\<rparr>"

text \<open>
  \<open>errorTracker.requestDidStart\<close>: \<open>Inl\<close> is the error it throws, \<open>Inr\<close> the state of
  the listeners it returns.
\<close>

definition requestDidStart ::
    "gql_request \<Rightarrow> gw_context \<Rightarrow> world \<Rightarrow> (js_error + flags) \<times> world" where
  "requestDidStart req ctx w =
     (let w1 = setExtraInfo ''query'' (query req) w;
          w2 = setExtraInfo ''variables'' (variables req) w1
      in case contextError ctx of
           Some cerr \<Rightarrow>
             (let w3 = log_error cerr w2
              in if cls cerr = AuthenticationError then (Inl cerr, w3)
                 else (Inl (new_Error ''Internal Server Error''),
                       flush (captureException cerr w3)))
         | None \<Rightarrow>
             (Inr init_flags,
              if truthy (affinity ctx) then setExtraInfo ''affinity'' (affinity ctx) w2
              else w2))"

text \<open>The callback \<open>parsingDidStart\<close> returns, called with the parsing error if any.\<close>

definition parsingDidStart :: "js_error option \<Rightarrow> flags \<Rightarrow> flags" where
  "parsingDidStart parsingError fl =
     (case parsingError of
        Some e \<Rightarrow> fl\<lparr>graphqlParsingFailure := True\<rparr>
      | None \<Rightarrow> fl)"

text \<open>
  The callback \<open>validationDidStart\<close> returns, called with the validation errors or
  with nothing.
\<close>

definition validationDidStart :: "js_error list option \<Rightarrow> flags \<Rightarrow> flags" where
  "validationDidStart validationErrors fl =
     (case validationErrors of
        Some errs \<Rightarrow> if length errs \<noteq> 0 then fl\<lparr>graphqlValidationFailure := True\<rparr> else fl
      | None \<Rightarrow> fl)"

text \<open>
  The request context the later hooks receive: what the caller sent as operation
  name, the operation definitions of the parsed document (each by its name, \<open>None\<close>
  for an anonymous one), and the \<open>operationName\<close> property the hook reads.
\<close>

record request_context =
  requested_operationName :: "string option"
  document_operations :: "string option list"
  operationName :: jsval

definition didResolveOperation :: "request_context \<Rightarrow> flags \<Rightarrow> flags" where
  "didResolveOperation requestContext fl =
     (if operationName requestContext = JUndefined
      then fl\<lparr>graphqlUnknownOperationName := True\<rparr>
      else fl)"

text \<open>The body of the loop of \<open>didEncounterErrors\<close>, over \<open>requestContext.errors\<close>.\<close>

fun report_errors :: "js_error list \<Rightarrow> world \<Rightarrow> world" where
  "report_errors [] w = w"
| "report_errors (err # errs) w =
     (let w1 = log_error err w
      in if ext_code err = JStr ''APPSYNC_PASSTHROUGH_ERROR'' then report_errors errs w1
         else if cls err = UserInputError \<or> cls err = SyntaxError then report_errors errs w1
         else report_errors errs (captureException err (log_info ''SENDING TO SENTRY'' w1)))"

definition didEncounterErrors :: "flags \<Rightarrow> js_error list \<Rightarrow> world \<Rightarrow> world" where
  "didEncounterErrors fl errs w =
     (let w1 = log_info ''didEncounterErrors'' w
      in if graphqlParsingFailure fl \<or> graphqlValidationFailure fl
            \<or> graphqlUnknownOperationName fl
         then w1
         else flush (report_errors errs w1))"

section \<open>Formatting errors for the caller (index.js, formatError)\<close>

definition formatError :: "js_error \<Rightarrow> js_error" where
  "formatError err =
     (let err1 = err\<lparr>stack := None\<rparr>;
          err2 = err1\<lparr>extensions := map_option (delete_prop ''exception'') (extensions err1)\<rparr>;
          err3 = (if ext_code err2 = JStr ''APPSYNC_PASSTHROUGH_ERROR''
                  then err2\<lparr>extensions := None\<rparr> else err2)
      in if ext_code err3 = JStr ''INTERNAL_SERVER_ERROR''
         then err3\<lparr>message := JStr ''Internal Server Error'', extensions := None\<rparr>
         else err3)"

section \<open>The result transform and the resolvers (index.js)\<close>

text \<open>
  A result of the backend: \<open>errors\<close> is \<open>None\<close> when the response has no (or a null)
  \<open>errors\<close> entry. What the backend sends is JSON, so its errors are plain objects;
  the transform replaces them by \<open>GraphQLError\<close> objects.
\<close>

record 'e exec_result =
  data :: jsval
  errors :: "'e list option"

definition transformResult :: "obj exec_result \<Rightarrow> js_error exec_result" where
  "transformResult originalResult =
     (case errors originalResult of
        None \<Rightarrow> \<lparr>data = data originalResult, errors = None\<rparr>
      | Some errs \<Rightarrow>
          \<lparr>data = data originalResult,
           errors = Some (map (\<lambda>error.
             new_GraphQLError (get_prop error ''message'') (get_prop error ''nodes'')
               (get_prop error ''source'') (get_prop error ''positions'')
               (get_prop error ''path'') (get_prop error ''originalError'')
               (set_prop ''code'' (JStr ''APPSYNC_PASSTHROUGH_ERROR'')
                  (spread (get_prop error ''extensions'')))) errs)\<rparr>)"

text \<open>
  The remote executor posts the delegated operation to the backend and returns the
  parsed body; \<open>Inl\<close> is a failure of the transport (\<open>fetch\<close> or \<open>json\<close> rejecting), with
  its message.
\<close>

type_synonym backend = "delegate_call \<Rightarrow> string + obj exec_result"

text \<open>
  Modelled from the spec: \<open>delegateToSchema\<close> of graphql-tools is not part of the
  sources. As section 4.4 says, it selects the field on the backend schema, executes
  through the executor, applies the transform and gives the backend's value or
  errors as the resolver's result; a failure of the transport is a local exception.
\<close>

definition delegateToSchema ::
    "backend \<Rightarrow> delegate_call \<Rightarrow> (obj exec_result \<Rightarrow> js_error exec_result) \<Rightarrow> world
       \<Rightarrow> (js_error list + jsval) \<times> world" where
  "delegateToSchema be call transform w =
     (let w1 = w\<lparr>delegated := delegated w @ [call]\<rparr>
      in case be call of
           Inl e \<Rightarrow> (Inl [new_Error e], w1)
         | Inr raw \<Rightarrow>
             (let r = transform raw
              in case errors r of
                   None \<Rightarrow> (Inr (data r), w1)
                 | Some [] \<Rightarrow> (Inr (data r), w1)
                 | Some (e # es) \<Rightarrow> (Inl (e # es), w1)))"

definition sayHello ::
    "backend \<Rightarrow> obj \<Rightarrow> gw_context \<Rightarrow> world \<Rightarrow> (js_error list + jsval) \<times> world" where
  "sayHello be as ctx w =
     delegateToSchema be
       \<lparr>operation = ''query'', fieldName = ''sayHello'',
        args = set_prop ''affinity'' (affinity ctx) as\<rparr>
       transformResult w"

definition someRandomMutation ::
    "backend \<Rightarrow> obj \<Rightarrow> gw_context \<Rightarrow> world \<Rightarrow> (js_error list + jsval) \<times> world" where
  "someRandomMutation be as ctx w =
     delegateToSchema be
       \<lparr>operation = ''mutation'', fieldName = ''someRandomMutation'',
        args = set_prop ''affinity'' (affinity ctx) as\<rparr>
       transformResult w"

section \<open>The request pipeline\<close>

text \<open>
  Modelled from the spec: the server tags every error it is about to format that
  carries no code of its own with the code of an unclassified local exception
  (section 3, and the comment in \<open>formatError\<close>: any error thrown that is not one of
  Apollo's subclassed errors has the code \<open>INTERNAL_SERVER_ERROR\<close>). This step of
  Apollo Server is not part of the sources.
\<close>

definition enrichError :: "js_error \<Rightarrow> js_error" where
  "enrichError err =
     err\<lparr>extensions :=
       Some (set_prop ''code''
               (if truthy (ext_code err) then ext_code err else JStr ''INTERNAL_SERVER_ERROR'')
               (case extensions err of None \<Rightarrow> [] | Some x \<Rightarrow> x))\<rparr>"

text \<open>
  The root fields of an operation, each with the arguments the caller supplied; the
  gateway declares one resolver for each.
\<close>

datatype root_field = Query_sayHello obj | Mutation_someRandomMutation obj

fun resolve_field ::
    "backend \<Rightarrow> gw_context \<Rightarrow> root_field \<Rightarrow> world \<Rightarrow> (js_error list + jsval) \<times> world" where
  "resolve_field be ctx (Query_sayHello as) w = sayHello be as ctx w"
| "resolve_field be ctx (Mutation_someRandomMutation as) w = someRandomMutation be as ctx w"

fun execute :: "backend \<Rightarrow> gw_context \<Rightarrow> root_field list \<Rightarrow> world \<Rightarrow> js_error list \<times> world" where
  "execute be ctx [] w = ([], w)"
| "execute be ctx (f # fs) w =
     (case resolve_field be ctx f w of
        (r, w1) \<Rightarrow>
          (case execute be ctx fs w1 of
             (errs, w2) \<Rightarrow> ((case r of Inl es \<Rightarrow> es | Inr v \<Rightarrow> []) @ errs, w2)))"

text \<open>
  What the GraphQL library finds in a request: the parsing error if the query does
  not parse, the validation errors, the operation name the caller sent with the
  request (if any), and the operation definitions of the document, each with its name
  (\<open>None\<close> for an anonymous operation) and its root fields.
\<close>

record stages =
  parsingError :: "js_error option"
  validationErrors :: "js_error list"
  requestedName :: "string option"
  document :: "(string option \<times> root_field list) list"

text \<open>
  Modelled from the spec: operation resolving (section 4.5) is done by the GraphQL
  library, not by the sources. The operation of a request is the one the caller
  named; when the caller named none, it is the operation of the document if there is
  exactly one. Otherwise no operation is resolved.
\<close>

definition getOperationAST ::
    "(string option \<times> root_field list) list \<Rightarrow> string option
       \<Rightarrow> (string option \<times> root_field list) option" where
  "getOperationAST doc requested =
     (case requested of
        None \<Rightarrow> (case doc of [op] \<Rightarrow> Some op | _ \<Rightarrow> None)
      | Some n \<Rightarrow> find (\<lambda>op. fst op = Some n) doc)"

text \<open>
  Modelled from the spec: the request context the server hands to
  \<open>didResolveOperation\<close>. Before it calls the hook, the server sets \<open>operationName\<close> to
  the name of the resolved operation, and to \<open>null\<close> when that operation is anonymous
  or when no operation is resolved.
\<close>

definition resolved_context :: "stages \<Rightarrow> request_context" where
  "resolved_context st =
     \<lparr>requested_operationName = requestedName st,
      document_operations = map fst (document st),
      operationName =
        (case getOperationAST (document st) (requestedName st) of
           Some (Some n, fs) \<Rightarrow> JStr n
         | Some (None, fs) \<Rightarrow> JNull
         | None \<Rightarrow> JNull)\<rparr>"

text \<open>\<open>new GraphQLError(msg)\<close>, with no extensions given.\<close>

definition graphql_error :: "string \<Rightarrow> js_error" where
  "graphql_error msg =
     \<lparr>cls = GraphQLError, message = JStr msg, nodes = JUndefined, source = JUndefined,
      positions = JUndefined, path = JUndefined, originalError = JUndefined,
      extensions = None, stack = Some captured_stack\<rparr>"

text \<open>
  Modelled from the spec: the failure of the operation-resolving stage. When no
  operation is resolved, execution ends before any resolver with one error of the
  GraphQL library.
\<close>

definition operation_error :: "stages \<Rightarrow> js_error" where
  "operation_error st =
     (case requestedName st of
        Some n \<Rightarrow>
          graphql_error (''Unknown operation named '' @ [CHR 0x22] @ n @ [CHR 0x22] @ ''.'')
      | None \<Rightarrow>
          if document st = [] then graphql_error ''Must provide an operation.''
          else graphql_error
                 ''Must provide operation name if query contains multiple operations.'')"

text \<open>
  The flags of a request when its operation is executed: parsing and validation have
  ended without error and \<open>didResolveOperation\<close> has seen the request context.
\<close>

definition flags_at_execution :: "stages \<Rightarrow> flags" where
  "flags_at_execution st =
     didResolveOperation (resolved_context st)
       (validationDidStart None (parsingDidStart None init_flags))"

text \<open>
  Modelled from the spec: the pipeline that drives the functions above is Apollo
  Server's and not part of the sources. Section 4.5 gives its stages (context
  building, parsing, validating, operation resolving, executing, formatting), strictly
  in sequence, a failing stage going straight to formatting; an error thrown by
  \<open>requestDidStart\<close> ends the request before any later stage. The result is the error
  list of the response, each error enriched and passed through \<open>formatError\<close>, and the
  world after the request.
\<close>

definition processRequest ::
    "users_table \<Rightarrow> backend \<Rightarrow> gql_request \<Rightarrow> stages \<Rightarrow> world \<Rightarrow> js_error list \<times> world" where
  "processRequest tbl be req st w =
     (let ctx = context_fn tbl (authorization req)
      in case requestDidStart req ctx w of
           (Inl thrown, w1) \<Rightarrow> ([formatError (enrichError thrown)], w1)
         | (Inr fl0, w1) \<Rightarrow>
             (case parsingError st of
                Some perr \<Rightarrow>
                  ([formatError (enrichError perr)],
                   didEncounterErrors (parsingDidStart (Some perr) fl0) [perr] w1)
              | None \<Rightarrow>
                  (let fl1 = parsingDidStart None fl0
                   in if validationErrors st \<noteq> [] then
                        (map (\<lambda>e. formatError (enrichError e)) (validationErrors st),
                         didEncounterErrors
                           (validationDidStart (Some (validationErrors st)) fl1)
                           (validationErrors st) w1)
                      else
                        (let fl2 = validationDidStart None fl1;
                             fl3 = didResolveOperation (resolved_context st) fl2
                         in case getOperationAST (document st) (requestedName st) of
                              None \<Rightarrow>
                                ([formatError (enrichError (operation_error st))],
                                 didEncounterErrors fl3 [operation_error st] w1)
                            | Some op \<Rightarrow>
                                (case execute be ctx (snd op) w1 of
                                   (errs, w2) \<Rightarrow>
                                     if errs = [] then ([], w2)
                                     else (map (\<lambda>e. formatError (enrichError e)) errs,
                                           didEncounterErrors fl3 errs w2))))))"

definition empty_world :: world where
  "empty_world = \<lparr>logged = [], captured = [], extraInfo = [], flushes = 0, delegated = []\<rparr>"

section \<open>The Lambda handler and the cached server (index.js, handler)\<close>

text \<open>
  The module variable \<open>apolloHandler\<close> (set or not) and the number of times
  \<open>createApolloServer\<close> has started schema discovery (\<open>introspectSchema\<close>).
\<close>

record process =
  apolloHandler :: bool
  discoveries :: nat

text \<open>
  An invocation of \<open>handler\<close> runs without interruption up to its \<open>await\<close> and, once
  \<open>createApolloServer\<close> has settled, from there to its end. \<open>AwaitingServer k\<close> waits
  for the discovery numbered \<open>k\<close>.
\<close>

datatype invocation = Entered | AwaitingServer nat | Completed | Rejected

text \<open>
  \<open>introspect k\<close> tells whether the discovery numbered \<open>k\<close> succeeds. When it fails
  \<open>createApolloServer\<close> rejects, the invocation rejects and \<open>apolloHandler\<close> stays
  unset.
\<close>

fun handler_step :: "(nat \<Rightarrow> bool) \<Rightarrow> process \<Rightarrow> invocation \<Rightarrow> process \<times> invocation" where
  "handler_step introspect p Entered =
     (if \<not> apolloHandler p
      then (p\<lparr>discoveries := Suc (discoveries p)\<rparr>, AwaitingServer (discoveries p))
      else (p, Completed))"
| "handler_step introspect p (AwaitingServer k) =
     (if introspect k then (p\<lparr>apolloHandler := True\<rparr>, Completed) else (p, Rejected))"
| "handler_step introspect p Completed = (p, Completed)"
| "handler_step introspect p Rejected = (p, Rejected)"

text \<open>One invocation from its entry to its end, nothing else running in between.\<close>

definition handler :: "(nat \<Rightarrow> bool) \<Rightarrow> process \<Rightarrow> process \<times> invocation" where
  "handler introspect p =
     (case handler_step introspect p Entered of
        (p1, inv1) \<Rightarrow> handler_step introspect p1 inv1)"

text \<open>\<open>n\<close> requests, each handled to its end before the next one arrives.\<close>

fun serve :: "(nat \<Rightarrow> bool) \<Rightarrow> nat \<Rightarrow> process \<Rightarrow> process" where
  "serve introspect 0 p = p"
| "serve introspect (Suc n) p = serve introspect n (fst (handler introspect p))"

text \<open>
  Invocations in flight together: \<open>step i\<close> lets invocation \<open>i\<close> run its next
  uninterrupted part, \<open>run\<close> follows a schedule.
\<close>

definition step ::
    "(nat \<Rightarrow> bool) \<Rightarrow> nat \<Rightarrow> process \<times> invocation list \<Rightarrow> process \<times> invocation list" where
  "step introspect i st =
     (case st of
        (p, invs) \<Rightarrow>
          if i < length invs then
            (case handler_step introspect p (invs ! i) of
               (p1, inv1) \<Rightarrow> (p1, invs[i := inv1]))
          else (p, invs))"

fun run ::
    "(nat \<Rightarrow> bool) \<Rightarrow> nat list \<Rightarrow> process \<times> invocation list \<Rightarrow> process \<times> invocation list" where
  "run introspect [] st = st"
| "run introspect (i # sched) st = run introspect sched (step introspect i st)"

definition cold_start :: process where
  "cold_start = \<lparr>apolloHandler = False, discoveries = 0\<rparr>"

section \<open>Example inputs\<close>

text \<open>
  A table with the key \<open>K\<close> of developer \<open>dev-42\<close> and a key \<open>E\<close> whose stored affinity
  is the empty string; a table whose lookups fail.
\<close>

definition sample_users :: users_table where
  "sample_users apiKey =
     (if apiKey = ''K''
      then Inr (Some [(''apiKey'', JStr ''K''), (''affinity'', JStr ''dev-42'')])
      else if apiKey = ''E''
      then Inr (Some [(''apiKey'', JStr ''E''), (''affinity'', JStr [])])
      else Inr None)"

definition unavailable_users :: users_table where
  "unavailable_users apiKey = Inl ''ServiceUnavailable''"

text \<open>
  A backend that answers, and one that answers with a GraphQL error carrying an
  extension of its own.
\<close>

definition backend_ok :: backend where
  "backend_ok call = Inr \<lparr>data = JObj [(fieldName call, JStr ''Hello'')], errors = None\<rparr>"

definition not_found_error :: obj where
  "not_found_error =
     [(''message'', JStr ''Not found''),
      (''path'', JArr [JStr ''sayHello'']),
      (''locations'', JArr [JObj [(''line'', JNum 1), (''column'', JNum 3)]]),
      (''extensions'', JObj [(''errorType'', JStr ''NotFound'')])]"

definition backend_failing :: backend where
  "backend_failing call = Inr \<lparr>data = JNull, errors = Some [not_found_error]\<rparr>"

text \<open>
  The request \<open>{ sayHello(name: $n) }\<close> with \<open>n = x\<close>, sent with the given authorization
  header, and what the GraphQL library finds in it: one anonymous operation with one
  root field.
\<close>

definition hello_request :: "string option \<Rightarrow> gql_request" where
  "hello_request hdr =
     \<lparr>authorization = hdr, query = JStr ''{ sayHello(name: $n) }'',
      variables = JObj [(''n'', JStr ''x'')]\<rparr>"

definition hello_stages :: stages where
  "hello_stages =
     \<lparr>parsingError = None, validationErrors = [], requestedName = None,
      document = [(None, [Query_sayHello [(''name'', JStr ''x'')]])]\<rparr>"

text \<open>
  A request with the key \<open>K\<close> whose document holds the two operations \<open>A\<close> and \<open>B\<close> and
  which names neither.
\<close>

definition two_operations_request :: gql_request where
  "two_operations_request =
     \<lparr>authorization = Some ''K'',
      query = JStr ''query A { sayHello(name: $n) } query B { sayHello(name: $n) }'',
      variables = JObj [(''n'', JStr ''x'')]\<rparr>"

definition two_operations_stages :: stages where
  "two_operations_stages =
     \<lparr>parsingError = None, validationErrors = [], requestedName = None,
      document = [(Some ''A'', [Query_sayHello [(''name'', JStr ''x'')]]),
                  (Some ''B'', [Query_sayHello [(''name'', JStr ''x'')]])]\<rparr>"

text \<open>A query that does not parse, with the syntax error the server raises for it.\<close>

definition sample_syntax_error :: js_error where
  "sample_syntax_error =
     \<lparr>cls = SyntaxError, message = JStr ''Syntax Error: Expected Name, found <EOF>.'',
      nodes = JUndefined, source = JUndefined, positions = JArr [JNum 11],
      path = JUndefined, originalError = JUndefined,
      extensions = Some [(''code'', JStr ''GRAPHQL_PARSE_FAILED'')],
      stack = Some captured_stack\<rparr>"

definition malformed_stages :: stages where
  "malformed_stages =
     \<lparr>parsingError = Some sample_syntax_error, validationErrors = [],
      requestedName = None, document = []\<rparr>"

section \<open>What the helpers leave unchanged\<close>

lemma captured_simps [simp]:
  "captured (log_info l w) = captured w"
  "captured (log_error e w) = captured w"
  "captured (setExtraInfo k v w) = captured w"
  "captured (flush w) = captured w"
  "captured (captureException e w) = captured w @ [e]"
  by (simp_all add: log_info_def log_error_def setExtraInfo_def flush_def captureException_def)

lemma flushes_simps [simp]:
  "flushes (log_info l w) = flushes w"
  "flushes (log_error e w) = flushes w"
  "flushes (setExtraInfo k v w) = flushes w"
  "flushes (flush w) = Suc (flushes w)"
  "flushes (captureException e w) = flushes w"
  by (simp_all add: log_info_def log_error_def setExtraInfo_def flush_def captureException_def)

lemma delegated_simps [simp]:
  "delegated (log_info l w) = delegated w"
  "delegated (log_error e w) = delegated w"
  "delegated (setExtraInfo k v w) = delegated w"
  "delegated (flush w) = delegated w"
  "delegated (captureException e w) = delegated w"
  by (simp_all add: log_info_def log_error_def setExtraInfo_def flush_def captureException_def)

lemma extraInfo_simps [simp]:
  "extraInfo (log_info l w) = extraInfo w"
  "extraInfo (log_error e w) = extraInfo w"
  "extraInfo (setExtraInfo k v w) = extraInfo w @ [(k, v)]"
  "extraInfo (flush w) = extraInfo w"
  "extraInfo (captureException e w) = extraInfo w"
  by (simp_all add: log_info_def log_error_def setExtraInfo_def flush_def captureException_def)

lemma captured_report_errors:
  "captured (report_errors errs w) =
     captured w @ filter (\<lambda>e. ext_code e \<noteq> JStr ''APPSYNC_PASSTHROUGH_ERROR''
                              \<and> cls e \<noteq> UserInputError \<and> cls e \<noteq> SyntaxError) errs"
  by (induction errs arbitrary: w) (simp_all add: Let_def)

lemma flushes_report_errors [simp]: "flushes (report_errors errs w) = flushes w"
  by (induction errs arbitrary: w) (simp_all add: Let_def)

lemma extraInfo_report_errors [simp]: "extraInfo (report_errors errs w) = extraInfo w"
  by (induction errs arbitrary: w) (simp_all add: Let_def)

lemma delegated_report_errors [simp]: "delegated (report_errors errs w) = delegated w"
  by (induction errs arbitrary: w) (simp_all add: Let_def)

lemma get_prop_delete_other: "k \<noteq> k' \<Longrightarrow> get_prop (delete_prop k ob) k' = get_prop ob k'"
  by (simp add: get_prop_def delete_prop_def delete_conv)

lemma ext_code_strip_exception:
  "ext_code (err\<lparr>stack := s,
       extensions := map_option (delete_prop ''exception'') (extensions err)\<rparr>) = ext_code err"
  by (cases "extensions err") (simp_all add: ext_code_def get_prop_delete_other)

section \<open>Requests that fail in context construction\<close>

lemma formatError_enrich_auth:
  "formatError (enrichError (new_AuthenticationError m)) =
     (new_AuthenticationError m)\<lparr>stack := None\<rparr>"
  by (simp add: formatError_def enrichError_def new_AuthenticationError_def ext_code_def
      get_prop_def set_prop_def delete_prop_def Let_def)

lemma formatError_enrich_plain:
  "formatError (enrichError (new_Error m)) =
     (new_Error ''Internal Server Error'')\<lparr>stack := None\<rparr>"
  by (simp add: formatError_def enrichError_def new_Error_def ext_code_def
      get_prop_def set_prop_def delete_prop_def Let_def)

lemma requestDidStart_auth:
  "cls e = AuthenticationError \<Longrightarrow>
   requestDidStart req \<lparr>affinity = a, contextError = Some e\<rparr> w =
     (Inl e, log_error e (setExtraInfo ''variables'' (variables req)
                            (setExtraInfo ''query'' (query req) w)))"
  by (simp add: requestDidStart_def Let_def)

lemma context_missing:
  "hdr = None \<or> hdr = Some [] \<Longrightarrow>
   context_fn tbl hdr = \<lparr>affinity = JUndefined,
     contextError = Some (new_AuthenticationError ''Missing authorization header'')\<rparr>"
  by (auto simp: context_fn_def)

lemma context_invalid:
  "apiKey \<noteq> [] \<Longrightarrow> getAffinityFromApiKey tbl (trim apiKey) = Inr a \<Longrightarrow> \<not> truthy a \<Longrightarrow>
   context_fn tbl (Some apiKey) = \<lparr>affinity = JUndefined,
     contextError = Some (new_AuthenticationError ''Invalid authorization header'')\<rparr>"
  by (simp add: context_fn_def)

lemma processRequest_auth:
  assumes "context_fn tbl (authorization req) =
     \<lparr>affinity = JUndefined, contextError = Some (new_AuthenticationError m)\<rparr>"
  shows "processRequest tbl be req st w =
     ([(new_AuthenticationError m)\<lparr>stack := None\<rparr>],
      log_error (new_AuthenticationError m)
        (setExtraInfo ''variables'' (variables req) (setExtraInfo ''query'' (query req) w)))"
proof -
  have c: "cls (new_AuthenticationError m) = AuthenticationError"
    by (simp add: new_AuthenticationError_def)
  show ?thesis
    unfolding processRequest_def assms Let_def
    by (simp add: requestDidStart_auth [OF c] formatError_enrich_auth)
qed

lemma trim_sample_E: "trim '' E '' = ''E''"
  by (simp add: trim_def is_ws_def)

text \<open>
  Claim C10. A key that is in the table but whose stored \<open>affinity\<close> is the empty
  string, or any other falsy value (also a missing attribute), resolves to \<open>null\<close>; the
  request then fails with the \<open>AuthenticationError\<close> "Invalid authorization header",
  and the whole outcome of the request is the one it has when the table holds no item
  for the key.
\<close>

theorem falsy_affinity_is_invalid_credential:
  assumes "authorization req = Some apiKey" and "apiKey \<noteq> []"
    and "tbl (trim apiKey) = Inr (Some item)"
    and "\<not> truthy (get_prop item ''affinity'')"
  shows "getAffinityFromApiKey tbl (trim apiKey) = Inr JNull
       \<and> contextError (context_fn tbl (authorization req)) =
           Some (new_AuthenticationError ''Invalid authorization header'')
       \<and> fst (processRequest tbl be req st w) =
           [(new_AuthenticationError ''Invalid authorization header'')\<lparr>stack := None\<rparr>]
       \<and> processRequest tbl be req st w =
           processRequest (tbl(trim apiKey := Inr None)) be req st w"
proof -
  have g: "getAffinityFromApiKey tbl (trim apiKey) = Inr JNull"
    using assms(3,4) by (simp add: getAffinityFromApiKey_def)
  have g': "getAffinityFromApiKey (tbl(trim apiKey := Inr None)) (trim apiKey) = Inr JNull"
    by (simp add: getAffinityFromApiKey_def)
  have c: "context_fn tbl (authorization req) = \<lparr>affinity = JUndefined,
     contextError = Some (new_AuthenticationError ''Invalid authorization header'')\<rparr>"
    using context_invalid [OF assms(2) g] assms(1) by simp
  have c': "context_fn (tbl(trim apiKey := Inr None)) (authorization req) =
     \<lparr>affinity = JUndefined,
      contextError = Some (new_AuthenticationError ''Invalid authorization header'')\<rparr>"
    using context_invalid [OF assms(2) g'] assms(1) by simp
  show ?thesis
    using g c processRequest_auth [OF c] processRequest_auth [OF c'] by simp
qed

theorem falsy_affinity_is_invalid_credential_witness:
  "getAffinityFromApiKey sample_users ''E'' = Inr JNull
   \<and> map message (fst (processRequest sample_users backend_ok (hello_request (Some '' E ''))
        hello_stages empty_world)) = [JStr ''Invalid authorization header'']
   \<and> processRequest sample_users backend_ok (hello_request (Some '' E ''))
        hello_stages empty_world
     = processRequest (sample_users(''E'' := Inr None)) backend_ok
        (hello_request (Some '' E '')) hello_stages empty_world"
proof -
  have a: "authorization (hello_request (Some '' E '')) = Some '' E ''"
    by (simp add: hello_request_def)
  have b: "'' E '' \<noteq> []" by simp
  have c: "sample_users (trim '' E '') =
      Inr (Some [(''apiKey'', JStr ''E''), (''affinity'', JStr [])])"
    by (simp add: trim_sample_E sample_users_def)
  have d: "\<not> truthy (get_prop [(''apiKey'', JStr ''E''), (''affinity'', JStr [])] ''affinity'')"
    by (simp add: get_prop_def)
  note th = falsy_affinity_is_invalid_credential
      [where req = "hello_request (Some '' E '')" and apiKey = "'' E ''" and tbl = sample_users
         and item = "[(''apiKey'', JStr ''E''), (''affinity'', JStr [])]"
         and be = backend_ok and st = hello_stages and w = empty_world, OF a b c d,
       unfolded trim_sample_E]
  from th have 1: "getAffinityFromApiKey sample_users ''E'' = Inr JNull"
    by (rule conjunct1)
  from th [THEN conjunct2, THEN conjunct2, THEN conjunct1]
  have 2: "map message (fst (processRequest sample_users backend_ok
      (hello_request (Some '' E '')) hello_stages empty_world)) =
      [JStr ''Invalid authorization header'']"
    by (simp add: new_AuthenticationError_def)
  from th [THEN conjunct2, THEN conjunct2, THEN conjunct2]
  have 3: "processRequest sample_users backend_ok (hello_request (Some '' E ''))
      hello_stages empty_world =
      processRequest (sample_users(''E'' := Inr None)) backend_ok
      (hello_request (Some '' E '')) hello_stages empty_world" .
  from 1 2 3 show ?thesis by (intro conjI)
qed

lemma requestDidStart_ok:
  "contextError ctx = None \<Longrightarrow>
   requestDidStart req ctx w =
     (Inr init_flags,
      if truthy (affinity ctx)
      then setExtraInfo ''affinity'' (affinity ctx)
             (setExtraInfo ''variables'' (variables req) (setExtraInfo ''query'' (query req) w))
      else setExtraInfo ''variables'' (variables req) (setExtraInfo ''query'' (query req) w))"
  by (simp add: requestDidStart_def Let_def)

lemma requestDidStart_other:
  "cls e \<noteq> AuthenticationError \<Longrightarrow>
   requestDidStart req \<lparr>affinity = a, contextError = Some e\<rparr> w =
     (Inl (new_Error ''Internal Server Error''),
      flush (captureException e (log_error e (setExtraInfo ''variables'' (variables req)
                            (setExtraInfo ''query'' (query req) w)))))"
  by (simp add: requestDidStart_def Let_def)

lemma context_unavailable:
  "apiKey \<noteq> [] \<Longrightarrow> tbl (trim apiKey) = Inl e \<Longrightarrow>
   context_fn tbl (Some apiKey) = \<lparr>affinity = JUndefined, contextError = Some (new_Error e)\<rparr>"
  by (simp add: context_fn_def getAffinityFromApiKey_def)

text \<open>
  Claim C4, with the messages as the code writes them. A request without the
  authorization header (or with an empty one) ends with the single error
  \<open>AuthenticationError\<close> "Missing authorization header"; a request whose key, trimmed,
  has no item in the table ends with \<open>AuthenticationError\<close> "Invalid authorization
  header". In both cases no resolver runs, so nothing is delegated to the backend, and
  nothing is sent to the fault-tracking service.
\<close>

theorem authentication_faults:
  "(authorization req = None \<or> authorization req = Some [] \<longrightarrow>
      fst (processRequest tbl be req st w) =
        [(new_AuthenticationError ''Missing authorization header'')\<lparr>stack := None\<rparr>]
      \<and> delegated (snd (processRequest tbl be req st w)) = delegated w
      \<and> captured (snd (processRequest tbl be req st w)) = captured w)
   \<and> (authorization req = Some apiKey \<and> apiKey \<noteq> [] \<and> tbl (trim apiKey) = Inr None \<longrightarrow>
      fst (processRequest tbl be req st w) =
        [(new_AuthenticationError ''Invalid authorization header'')\<lparr>stack := None\<rparr>]
      \<and> delegated (snd (processRequest tbl be req st w)) = delegated w
      \<and> captured (snd (processRequest tbl be req st w)) = captured w)"
proof (intro conjI impI)
  assume "authorization req = None \<or> authorization req = Some []"
  then have c: "context_fn tbl (authorization req) = \<lparr>affinity = JUndefined,
      contextError = Some (new_AuthenticationError ''Missing authorization header'')\<rparr>"
    by (rule context_missing)
  show "fst (processRequest tbl be req st w) =
        [(new_AuthenticationError ''Missing authorization header'')\<lparr>stack := None\<rparr>]"
    and "delegated (snd (processRequest tbl be req st w)) = delegated w"
    and "captured (snd (processRequest tbl be req st w)) = captured w"
    by (simp_all add: processRequest_auth [OF c])
next
  assume a: "authorization req = Some apiKey \<and> apiKey \<noteq> [] \<and> tbl (trim apiKey) = Inr None"
  then have g: "getAffinityFromApiKey tbl (trim apiKey) = Inr JNull"
    by (simp add: getAffinityFromApiKey_def)
  have c: "context_fn tbl (authorization req) = \<lparr>affinity = JUndefined,
      contextError = Some (new_AuthenticationError ''Invalid authorization header'')\<rparr>"
    using context_invalid [OF _ g] a by simp
  show "fst (processRequest tbl be req st w) =
        [(new_AuthenticationError ''Invalid authorization header'')\<lparr>stack := None\<rparr>]"
    and "delegated (snd (processRequest tbl be req st w)) = delegated w"
    and "captured (snd (processRequest tbl be req st w)) = captured w"
    by (simp_all add: processRequest_auth [OF c])
qed

lemma trim_nobody: "trim ''nobody'' = ''nobody''"
  by (simp add: trim_def is_ws_def)

theorem authentication_faults_witness:
  "fst (processRequest sample_users backend_ok (hello_request None) hello_stages empty_world) =
     [(new_AuthenticationError ''Missing authorization header'')\<lparr>stack := None\<rparr>]
   \<and> delegated (snd (processRequest sample_users backend_ok (hello_request None)
        hello_stages empty_world)) = []
   \<and> fst (processRequest sample_users backend_ok (hello_request (Some ''nobody''))
        hello_stages empty_world) =
     [(new_AuthenticationError ''Invalid authorization header'')\<lparr>stack := None\<rparr>]
   \<and> delegated (snd (processRequest sample_users backend_ok (hello_request (Some ''nobody''))
        hello_stages empty_world)) = []"
proof -
  have a: "authorization (hello_request None) = None
      \<or> authorization (hello_request None) = Some []"
    by (simp add: hello_request_def)
  have b: "authorization (hello_request (Some ''nobody'')) = Some ''nobody'' \<and> ''nobody'' \<noteq> []
      \<and> sample_users (trim ''nobody'') = Inr None"
    by (simp add: hello_request_def trim_nobody sample_users_def)
  note m = authentication_faults
      [where req = "hello_request None" and tbl = sample_users and be = backend_ok
         and st = hello_stages and w = empty_world,
       THEN conjunct1, rule_format, OF a]
  note i = authentication_faults
      [where req = "hello_request (Some ''nobody'')" and apiKey = "''nobody''"
         and tbl = sample_users and be = backend_ok
         and st = hello_stages and w = empty_world,
       THEN conjunct2, rule_format, OF b]
  from m i show ?thesis by (simp add: empty_world_def)
qed

text \<open>
  The claim quotes the messages in lower case; the message the caller receives for a
  missing header starts with a capital letter.
\<close>

theorem missing_header_message_counterexample:
  "map message (fst (processRequest sample_users backend_ok (hello_request None)
      hello_stages empty_world)) = [JStr ''Missing authorization header'']
   \<and> map message (fst (processRequest sample_users backend_ok (hello_request None)
      hello_stages empty_world)) \<noteq> [JStr ''missing authorization header'']"
proof -
  have "context_fn sample_users (authorization (hello_request None)) = \<lparr>affinity = JUndefined,
      contextError = Some (new_AuthenticationError ''Missing authorization header'')\<rparr>"
    by (simp add: hello_request_def context_missing)
  then show ?thesis
    by (simp add: processRequest_auth new_AuthenticationError_def)
qed

lemma processRequest_unavailable:
  assumes "context_fn tbl (authorization req) =
     \<lparr>affinity = JUndefined, contextError = Some (new_Error e)\<rparr>"
  shows "processRequest tbl be req st w =
     ([(new_Error ''Internal Server Error'')\<lparr>stack := None\<rparr>],
      flush (captureException (new_Error e) (log_error (new_Error e)
        (setExtraInfo ''variables'' (variables req) (setExtraInfo ''query'' (query req) w)))))"
proof -
  have c: "cls (new_Error e) \<noteq> AuthenticationError"
    by (simp add: new_Error_def)
  show ?thesis
    unfolding processRequest_def assms Let_def
    by (simp add: requestDidStart_other [OF c] formatError_enrich_plain)
qed

text \<open>
  Claim C7, as the code has it. When the table lookup fails, the error it fails with
  becomes the context error. It is not an \<open>AuthenticationError\<close>, so
  \<open>requestDidStart\<close> sends it to the fault-tracking service, flushes, and throws a new
  error in its place: the caller receives "Internal Server Error". No resolver runs.
\<close>

theorem lookup_failure_is_reported_and_masked:
  assumes "authorization req = Some apiKey" and "apiKey \<noteq> []"
    and "tbl (trim apiKey) = Inl e"
  shows "contextError (context_fn tbl (authorization req)) = Some (new_Error e)
       \<and> cls (new_Error e) \<noteq> AuthenticationError
       \<and> fst (processRequest tbl be req st w) =
           [(new_Error ''Internal Server Error'')\<lparr>stack := None\<rparr>]
       \<and> captured (snd (processRequest tbl be req st w)) = captured w @ [new_Error e]
       \<and> flushes (snd (processRequest tbl be req st w)) = Suc (flushes w)
       \<and> delegated (snd (processRequest tbl be req st w)) = delegated w"
proof -
  have c: "context_fn tbl (authorization req) =
     \<lparr>affinity = JUndefined, contextError = Some (new_Error e)\<rparr>"
    using assms by (simp add: context_unavailable)
  show ?thesis
    by (simp add: c processRequest_unavailable [OF c]) (simp add: new_Error_def)
qed

lemma trim_K: "trim ''K'' = ''K''"
  by (simp add: trim_def is_ws_def)

theorem lookup_failure_is_reported_and_masked_witness:
  "map message (fst (processRequest unavailable_users backend_ok (hello_request (Some ''K''))
       hello_stages empty_world)) = [JStr ''Internal Server Error'']
   \<and> captured (snd (processRequest unavailable_users backend_ok (hello_request (Some ''K''))
       hello_stages empty_world)) = [new_Error ''ServiceUnavailable'']
   \<and> delegated (snd (processRequest unavailable_users backend_ok (hello_request (Some ''K''))
       hello_stages empty_world)) = []"
proof -
  have a: "authorization (hello_request (Some ''K'')) = Some ''K''"
    by (simp add: hello_request_def)
  have b: "''K'' \<noteq> []" by simp
  have c: "unavailable_users (trim ''K'') = Inl ''ServiceUnavailable''"
    by (simp add: unavailable_users_def)
  note th = lookup_failure_is_reported_and_masked
      [where req = "hello_request (Some ''K'')" and apiKey = "''K''" and tbl = unavailable_users
         and e = "''ServiceUnavailable''" and be = backend_ok
         and st = hello_stages and w = empty_world, OF a b c]
  from th show ?thesis by (simp add: empty_world_def new_Error_def)
qed

text \<open>
  With a table that is unavailable, the fault is a plain \<open>Error\<close>, it is captured by the
  fault-tracking service, and the response is the generic one: the opposite of what
  claim C7 says.
\<close>

theorem lookup_unavailable_counterexample:
  "map_option cls (contextError (context_fn unavailable_users (Some ''K''))) = Some Error
   \<and> captured (snd (processRequest unavailable_users backend_ok (hello_request (Some ''K''))
       hello_stages empty_world)) = [new_Error ''ServiceUnavailable'']
   \<and> map message (fst (processRequest unavailable_users backend_ok (hello_request (Some ''K''))
       hello_stages empty_world)) = [JStr ''Internal Server Error'']"
proof -
  have c: "context_fn unavailable_users (authorization (hello_request (Some ''K''))) =
     \<lparr>affinity = JUndefined, contextError = Some (new_Error ''ServiceUnavailable'')\<rparr>"
    by (simp add: hello_request_def context_unavailable unavailable_users_def)
  then have c': "context_fn unavailable_users (Some ''K'') =
     \<lparr>affinity = JUndefined, contextError = Some (new_Error ''ServiceUnavailable'')\<rparr>"
    by (simp add: hello_request_def)
  show ?thesis
    by (simp add: c' processRequest_unavailable [OF c] empty_world_def) (simp add: new_Error_def)
qed

section \<open>Formatting\<close>

text \<open>
  Claim C8, as the code has it. \<open>formatError\<close> removes extensions only from errors that
  carry one of its two codes. An \<open>AuthenticationError\<close>, \<open>UserInputError\<close> or
  \<open>SyntaxError\<close> whose code is neither of them (Apollo gives these classes the codes
  \<open>UNAUTHENTICATED\<close>, \<open>BAD_USER_INPUT\<close> and \<open>GRAPHQL_PARSE_FAILED\<close>) reaches the caller
  with its message unchanged, without its stack, and with its extensions kept but
  for the \<open>exception\<close> entry.
\<close>

theorem disclosed_faults_keep_their_extensions:
  assumes "cls err = AuthenticationError \<or> cls err = UserInputError \<or> cls err = SyntaxError"
    and "ext_code err \<noteq> JStr ''APPSYNC_PASSTHROUGH_ERROR''"
    and "ext_code err \<noteq> JStr ''INTERNAL_SERVER_ERROR''"
  shows "message (formatError err) = message err
       \<and> extensions (formatError err) = map_option (delete_prop ''exception'') (extensions err)
       \<and> stack (formatError err) = None
       \<and> formatError err =
           err\<lparr>stack := None,
               extensions := map_option (delete_prop ''exception'') (extensions err)\<rparr>"
proof -
  have "formatError err =
      err\<lparr>stack := None, extensions := map_option (delete_prop ''exception'') (extensions err)\<rparr>"
    using assms(2,3) by (simp add: formatError_def Let_def ext_code_strip_exception)
  then show ?thesis by simp
qed

theorem disclosed_faults_keep_their_extensions_witness:
  "message (formatError (new_AuthenticationError ''Missing authorization header'')) =
     JStr ''Missing authorization header''
   \<and> extensions (formatError (new_AuthenticationError ''Missing authorization header'')) =
     Some [(''code'', JStr ''UNAUTHENTICATED'')]
   \<and> stack (formatError (new_AuthenticationError ''Missing authorization header'')) = None"
proof -
  have a: "cls (new_AuthenticationError ''Missing authorization header'') = AuthenticationError
      \<or> cls (new_AuthenticationError ''Missing authorization header'') = UserInputError
      \<or> cls (new_AuthenticationError ''Missing authorization header'') = SyntaxError"
    by (simp add: new_AuthenticationError_def)
  have b: "ext_code (new_AuthenticationError ''Missing authorization header'') \<noteq>
      JStr ''APPSYNC_PASSTHROUGH_ERROR''"
    by (simp add: new_AuthenticationError_def ext_code_def get_prop_def)
  have c: "ext_code (new_AuthenticationError ''Missing authorization header'') \<noteq>
      JStr ''INTERNAL_SERVER_ERROR''"
    by (simp add: new_AuthenticationError_def ext_code_def get_prop_def)
  from disclosed_faults_keep_their_extensions [OF a b c]
  show ?thesis by (simp add: new_AuthenticationError_def delete_prop_def)
qed

text \<open>
  The error of a request without authorization header still has its extensions when
  it reaches the caller: claim C8 says it has none.
\<close>

theorem authentication_fault_extensions_counterexample:
  "extensions (formatError (new_AuthenticationError ''Missing authorization header'')) =
     Some [(''code'', JStr ''UNAUTHENTICATED'')]
   \<and> map extensions (fst (processRequest sample_users backend_ok (hello_request None)
        hello_stages empty_world)) = [Some [(''code'', JStr ''UNAUTHENTICATED'')]]"
proof -
  have c: "context_fn sample_users (authorization (hello_request None)) = \<lparr>affinity = JUndefined,
      contextError = Some (new_AuthenticationError ''Missing authorization header'')\<rparr>"
    by (simp add: hello_request_def context_missing)
  have "extensions (formatError (new_AuthenticationError ''Missing authorization header'')) =
     Some [(''code'', JStr ''UNAUTHENTICATED'')]"
    by (simp add: formatError_def new_AuthenticationError_def ext_code_def get_prop_def
        delete_prop_def Let_def)
  then show ?thesis
    by (simp add: processRequest_auth [OF c]) (simp add: new_AuthenticationError_def)
qed

section \<open>Errors of the backend\<close>

lemma transform_not_found:
  "transformResult \<lparr>data = JNull, errors = Some [not_found_error]\<rparr> =
     \<lparr>data = JNull,
      errors = Some [new_GraphQLError (JStr ''Not found'') JUndefined JUndefined JUndefined
        (JArr [JStr ''sayHello'']) JUndefined
        [(''errorType'', JStr ''NotFound''), (''code'', JStr ''APPSYNC_PASSTHROUGH_ERROR'')]]\<rparr>"
  by (simp add: transformResult_def not_found_error_def get_prop_def set_prop_def)

lemma formatError_not_found:
  "formatError (new_GraphQLError (JStr ''Not found'') JUndefined JUndefined JUndefined
        (JArr [JStr ''sayHello'']) JUndefined
        [(''errorType'', JStr ''NotFound''), (''code'', JStr ''APPSYNC_PASSTHROUGH_ERROR'')]) =
   \<lparr>cls = GraphQLError, message = JStr ''Not found'', nodes = JUndefined, source = JUndefined,
    positions = JUndefined, path = JArr [JStr ''sayHello''], originalError = JUndefined,
    extensions = None, stack = None\<rparr>"
  by (simp add: formatError_def new_GraphQLError_def ext_code_def get_prop_def delete_prop_def
      Let_def)

text \<open>
  Claim C1, evaluated where it fails. The backend answers \<open>sayHello\<close> with one error,
  "Not found", whose extensions are \<open>{errorType: "NotFound"}\<close>. The transform adds the
  code \<open>APPSYNC_PASSTHROUGH_ERROR\<close>; \<open>formatError\<close>, finding that code, deletes the
  whole \<open>extensions\<close> property, not only the code. The caller receives the message and
  the path but no extensions; nothing is sent to the fault-tracking service.
\<close>

theorem backend_error_extensions_dropped:
  "get_prop not_found_error ''extensions'' = JObj [(''errorType'', JStr ''NotFound'')]
   \<and> map_option (map formatError)
        (errors (transformResult \<lparr>data = JNull, errors = Some [not_found_error]\<rparr>)) =
      Some [\<lparr>cls = GraphQLError, message = JStr ''Not found'', nodes = JUndefined,
             source = JUndefined, positions = JUndefined, path = JArr [JStr ''sayHello''],
             originalError = JUndefined, extensions = None, stack = None\<rparr>]
   \<and> fst (processRequest sample_users backend_failing (hello_request (Some ''K''))
        hello_stages empty_world) =
      [\<lparr>cls = GraphQLError, message = JStr ''Not found'', nodes = JUndefined,
        source = JUndefined, positions = JUndefined, path = JArr [JStr ''sayHello''],
        originalError = JUndefined, extensions = None, stack = None\<rparr>]
   \<and> captured (snd (processRequest sample_users backend_failing (hello_request (Some ''K''))
        hello_stages empty_world)) = []"
proof (intro conjI)
  show "get_prop not_found_error ''extensions'' = JObj [(''errorType'', JStr ''NotFound'')]"
    by (simp add: not_found_error_def get_prop_def)
  show "map_option (map formatError)
        (errors (transformResult \<lparr>data = JNull, errors = Some [not_found_error]\<rparr>)) =
      Some [\<lparr>cls = GraphQLError, message = JStr ''Not found'', nodes = JUndefined,
             source = JUndefined, positions = JUndefined, path = JArr [JStr ''sayHello''],
             originalError = JUndefined, extensions = None, stack = None\<rparr>]"
    by (simp add: transform_not_found formatError_not_found)
  show "fst (processRequest sample_users backend_failing (hello_request (Some ''K''))
        hello_stages empty_world) =
      [\<lparr>cls = GraphQLError, message = JStr ''Not found'', nodes = JUndefined,
        source = JUndefined, positions = JUndefined, path = JArr [JStr ''sayHello''],
        originalError = JUndefined, extensions = None, stack = None\<rparr>]"
    by code_simp
  show "captured (snd (processRequest sample_users backend_failing (hello_request (Some ''K''))
        hello_stages empty_world)) = []"
    by code_simp
qed

section \<open>Reporting at the end of a request\<close>

lemma count_list_filter: "count_list (filter P xs) x = (if P x then count_list xs x else 0)"
  by (induction xs) auto

lemma formatError_internal:
  assumes "ext_code err = JStr ''INTERNAL_SERVER_ERROR''"
  shows "formatError err = err\<lparr>stack := None, message := JStr ''Internal Server Error'',
     extensions := None\<rparr>"
  using assms by (simp add: formatError_def Let_def ext_code_strip_exception)


lemma requestDidStart_ok_fst:
  "contextError ctx = None \<Longrightarrow> fst (requestDidStart req ctx w) = Inr init_flags"
  by (simp add: requestDidStart_ok)

lemma requestDidStart_ok_snd:
  "contextError ctx = None \<Longrightarrow>
     captured (snd (requestDidStart req ctx w)) = captured w
   \<and> flushes (snd (requestDidStart req ctx w)) = flushes w
   \<and> delegated (snd (requestDidStart req ctx w)) = delegated w"
  by (simp add: requestDidStart_ok)

lemma processRequest_malformed:
  assumes "contextError (context_fn tbl (authorization req)) = None"
    and "parsingError st = Some perr"
  shows "processRequest tbl be req st w =
     ([formatError (enrichError perr)],
      log_info ''didEncounterErrors''
        (snd (requestDidStart req (context_fn tbl (authorization req)) w)))"
proof -
  obtain r w1 where rw: "requestDidStart req (context_fn tbl (authorization req)) w = (r, w1)"
    by (cases "requestDidStart req (context_fn tbl (authorization req)) w")
  with requestDidStart_ok_fst [OF assms(1), of req w] have r: "r = Inr init_flags" by simp
  show ?thesis
    by (simp add: processRequest_def Let_def rw r assms(2) parsingDidStart_def
        didEncounterErrors_def)
qed

lemma didResolveOperation_flag:
  "graphqlUnknownOperationName (didResolveOperation rc fl) =
     (graphqlUnknownOperationName fl \<or> operationName rc = JUndefined)
   \<and> graphqlParsingFailure (didResolveOperation rc fl) = graphqlParsingFailure fl
   \<and> graphqlValidationFailure (didResolveOperation rc fl) = graphqlValidationFailure fl"
  by (simp add: didResolveOperation_def)

lemma resolved_context_operationName:
  "operationName (resolved_context st) \<noteq> JUndefined"
  by (simp add: resolved_context_def split: option.splits prod.splits)

lemma flags_at_execution_unset: "flags_at_execution st = init_flags"
  by (simp add: flags_at_execution_def didResolveOperation_def resolved_context_operationName
      validationDidStart_def parsingDidStart_def)

lemma ext_code_enrich_uncoded:
  "\<not> truthy (ext_code exn) \<Longrightarrow> ext_code (enrichError exn) = JStr ''INTERNAL_SERVER_ERROR''"
  by (simp add: enrichError_def ext_code_def get_prop_def set_prop_def update_conv')

lemma formatError_enrich_uncoded:
  assumes "\<not> truthy (ext_code exn)"
  shows "formatError (enrichError exn) =
     exn\<lparr>stack := None, message := JStr ''Internal Server Error'', extensions := None\<rparr>"
  using formatError_internal [OF ext_code_enrich_uncoded [OF assms]]
  by (simp add: enrichError_def)

text \<open>
  What the pipeline does with the errors of the executed operation: the response
  holds each of them enriched and formatted, and \<open>didEncounterErrors\<close> receives the
  list with the flags of \<open>flags_at_execution\<close>.
\<close>

lemma processRequest_executed:
  assumes "contextError (context_fn tbl (authorization req)) = None"
    and "parsingError st = None" and "validationErrors st = []"
    and "getOperationAST (document st) (requestedName st) = Some op"
    and "execute be (context_fn tbl (authorization req)) (snd op)
           (snd (requestDidStart req (context_fn tbl (authorization req)) w)) = (errs, w2)"
    and "errs \<noteq> []"
  shows "processRequest tbl be req st w =
     (map (\<lambda>e. formatError (enrichError e)) errs,
      didEncounterErrors (flags_at_execution st) errs w2)"
proof -
  obtain r w1 where rw: "requestDidStart req (context_fn tbl (authorization req)) w = (r, w1)"
    by (cases "requestDidStart req (context_fn tbl (authorization req)) w")
  with requestDidStart_ok_fst [OF assms(1), of req w] have r: "r = Inr init_flags" by simp
  from assms(5) rw have e: "execute be (context_fn tbl (authorization req)) (snd op) w1 = (errs, w2)"
    by simp
  show ?thesis
    by (simp add: processRequest_def Let_def rw r assms(2,3,4,6) e flags_at_execution_def)
qed

text \<open>
  Claim C2. An uncaught local exception is an error that carries no error code of its
  own (so it is not tagged as coming from the backend and is none of Apollo's coded
  errors) and is no \<open>UserInputError\<close> and no \<open>SyntaxError\<close>. The server gives it the code
  \<open>INTERNAL_SERVER_ERROR\<close>, and the caller receives it with the message "Internal
  Server Error", without extensions and without stack. A request whose operation is
  executed has none of its three flags set, so \<open>didEncounterErrors\<close> sends the
  exception to the fault-tracking service once for each time it stands in the error
  list of the request, exactly once when it stands there once, and flushes once.
\<close>

theorem internal_fault_masked_and_reported:
  assumes "\<not> truthy (ext_code exn)"
    and "cls exn \<noteq> UserInputError" and "cls exn \<noteq> SyntaxError"
  shows "message (formatError (enrichError exn)) = JStr ''Internal Server Error''
       \<and> extensions (formatError (enrichError exn)) = None
       \<and> stack (formatError (enrichError exn)) = None
       \<and> count_list (captured (didEncounterErrors (flags_at_execution st) errs w)) exn =
           count_list (captured w) exn + count_list errs exn
       \<and> flushes (didEncounterErrors (flags_at_execution st) errs w) = Suc (flushes w)"
proof -
  have r: "ext_code exn \<noteq> JStr ''APPSYNC_PASSTHROUGH_ERROR''"
    using assms(1) by auto
  have c: "captured (didEncounterErrors (flags_at_execution st) errs w) =
      captured w @ filter (\<lambda>e. ext_code e \<noteq> JStr ''APPSYNC_PASSTHROUGH_ERROR''
                              \<and> cls e \<noteq> UserInputError \<and> cls e \<noteq> SyntaxError) errs"
    by (simp add: flags_at_execution_unset init_flags_def didEncounterErrors_def Let_def
        captured_report_errors)
  have n: "count_list (captured (didEncounterErrors (flags_at_execution st) errs w)) exn =
           count_list (captured w) exn + count_list errs exn"
    using r assms(2,3) by (simp add: c count_list_filter)
  have f: "flushes (didEncounterErrors (flags_at_execution st) errs w) = Suc (flushes w)"
    by (simp add: flags_at_execution_unset init_flags_def didEncounterErrors_def Let_def)
  show ?thesis
    using n f by (simp add: formatError_enrich_uncoded [OF assms(1)])
qed

theorem internal_fault_masked_and_reported_witness:
  "message (formatError (enrichError (new_Error ''Cannot read properties of undefined''))) =
     JStr ''Internal Server Error''
   \<and> extensions (formatError (enrichError (new_Error ''Cannot read properties of undefined'')))
       = None
   \<and> stack (formatError (enrichError (new_Error ''Cannot read properties of undefined'')))
       = None
   \<and> count_list (captured (didEncounterErrors (flags_at_execution hello_stages)
        [new_Error ''Cannot read properties of undefined''] empty_world))
        (new_Error ''Cannot read properties of undefined'') = 1
   \<and> flushes (didEncounterErrors (flags_at_execution hello_stages)
        [new_Error ''Cannot read properties of undefined''] empty_world) = 1"
proof -
  let ?e = "new_Error ''Cannot read properties of undefined''"
  have a: "\<not> truthy (ext_code ?e)"
    by (simp add: new_Error_def ext_code_def)
  have b: "cls ?e \<noteq> UserInputError" "cls ?e \<noteq> SyntaxError"
    by (simp_all add: new_Error_def)
  from internal_fault_masked_and_reported [OF a b, of hello_stages "[?e]" empty_world]
  show ?thesis by (simp add: empty_world_def)
qed

text \<open>
  Claim C5, evaluated where it fails. \<open>didResolveOperation\<close> sets the flag only when
  the \<open>operationName\<close> of the request context is \<open>undefined\<close>. The server passes the name
  of the operation or \<open>null\<close>, so no request has the flag set when its operation is
  executed. The request with the two operations \<open>A\<close> and \<open>B\<close> that names neither is
  the case the flag is meant for: its \<open>operationName\<close> is \<open>null\<close>, the flag stays
  unset, and the error of the caller's mistake is sent to the fault-tracking service
  and reaches the caller as "Internal Server Error".
\<close>

theorem unnamed_request_with_two_operations_not_flagged:
  "\<not> graphqlUnknownOperationName (flags_at_execution st)
   \<and> requestedName two_operations_stages = None
   \<and> map fst (document two_operations_stages) = [Some ''A'', Some ''B'']
   \<and> operationName (resolved_context two_operations_stages) = JNull
   \<and> \<not> graphqlUnknownOperationName (flags_at_execution two_operations_stages)
   \<and> map message (captured (snd (processRequest sample_users backend_ok
        two_operations_request two_operations_stages empty_world))) =
      [JStr ''Must provide operation name if query contains multiple operations.'']
   \<and> map message (fst (processRequest sample_users backend_ok
        two_operations_request two_operations_stages empty_world)) =
      [JStr ''Internal Server Error'']
   \<and> delegated (snd (processRequest sample_users backend_ok
        two_operations_request two_operations_stages empty_world)) = []"
proof (intro conjI)
  show "\<not> graphqlUnknownOperationName (flags_at_execution st)"
    and "\<not> graphqlUnknownOperationName (flags_at_execution two_operations_stages)"
    by (simp_all add: flags_at_execution_unset init_flags_def)
  show "requestedName two_operations_stages = None"
    and "map fst (document two_operations_stages) = [Some ''A'', Some ''B'']"
    by (simp_all add: two_operations_stages_def)
  show "operationName (resolved_context two_operations_stages) = JNull"
    by (simp add: resolved_context_def getOperationAST_def two_operations_stages_def)
  show "map message (captured (snd (processRequest sample_users backend_ok
        two_operations_request two_operations_stages empty_world))) =
      [JStr ''Must provide operation name if query contains multiple operations.'']"
    by code_simp
  show "map message (fst (processRequest sample_users backend_ok
        two_operations_request two_operations_stages empty_world)) =
      [JStr ''Internal Server Error'']"
    by code_simp
  show "delegated (snd (processRequest sample_users backend_ok
        two_operations_request two_operations_stages empty_world)) = []"
    by code_simp
qed

text \<open>
  Claim C6. When one of the flags \<open>graphqlParsingFailure\<close>,
  \<open>graphqlValidationFailure\<close>, \<open>graphqlUnknownOperationName\<close> is set,
  \<open>didEncounterErrors\<close> sends nothing to the fault-tracking service and does not flush
  it, whatever the error list holds. Otherwise the service receives, in order, every
  error of the list that neither carries the code \<open>APPSYNC_PASSTHROUGH_ERROR\<close> (the
  spec's marker \<open>BACKEND_ORIGIN\<close>) nor is a \<open>UserInputError\<close> or a \<open>SyntaxError\<close>, and is
  flushed once. A query that does not parse gives the caller its error and the
  service nothing.
\<close>

theorem end_of_request_reporting:
  "captured (didEncounterErrors fl errs w) =
     (if graphqlParsingFailure fl \<or> graphqlValidationFailure fl \<or> graphqlUnknownOperationName fl
      then captured w
      else captured w @ filter (\<lambda>e. ext_code e \<noteq> JStr ''APPSYNC_PASSTHROUGH_ERROR''
                                    \<and> cls e \<noteq> UserInputError \<and> cls e \<noteq> SyntaxError) errs)
   \<and> flushes (didEncounterErrors fl errs w) =
     (if graphqlParsingFailure fl \<or> graphqlValidationFailure fl \<or> graphqlUnknownOperationName fl
      then flushes w else Suc (flushes w))
   \<and> extraInfo (didEncounterErrors fl errs w) = extraInfo w
   \<and> (contextError (context_fn tbl (authorization req)) = None \<and> parsingError st = Some perr \<longrightarrow>
        fst (processRequest tbl be req st w) = [formatError (enrichError perr)]
        \<and> captured (snd (processRequest tbl be req st w)) = captured w
        \<and> flushes (snd (processRequest tbl be req st w)) = flushes w)"
proof (intro conjI impI)
  show "captured (didEncounterErrors fl errs w) =
     (if graphqlParsingFailure fl \<or> graphqlValidationFailure fl \<or> graphqlUnknownOperationName fl
      then captured w
      else captured w @ filter (\<lambda>e. ext_code e \<noteq> JStr ''APPSYNC_PASSTHROUGH_ERROR''
                                    \<and> cls e \<noteq> UserInputError \<and> cls e \<noteq> SyntaxError) errs)"
    by (simp add: didEncounterErrors_def Let_def captured_report_errors)
  show "flushes (didEncounterErrors fl errs w) =
     (if graphqlParsingFailure fl \<or> graphqlValidationFailure fl \<or> graphqlUnknownOperationName fl
      then flushes w else Suc (flushes w))"
    by (simp add: didEncounterErrors_def Let_def)
  show "extraInfo (didEncounterErrors fl errs w) = extraInfo w"
    by (simp add: didEncounterErrors_def Let_def)
next
  assume a: "contextError (context_fn tbl (authorization req)) = None \<and> parsingError st = Some perr"
  then have p: "processRequest tbl be req st w =
     ([formatError (enrichError perr)],
      log_info ''didEncounterErrors''
        (snd (requestDidStart req (context_fn tbl (authorization req)) w)))"
    by (simp add: processRequest_malformed)
  from a have s: "captured (snd (requestDidStart req (context_fn tbl (authorization req)) w)) = captured w
   \<and> flushes (snd (requestDidStart req (context_fn tbl (authorization req)) w)) = flushes w
   \<and> delegated (snd (requestDidStart req (context_fn tbl (authorization req)) w)) = delegated w"
    by (simp add: requestDidStart_ok_snd)
  show "fst (processRequest tbl be req st w) = [formatError (enrichError perr)]"
    and "captured (snd (processRequest tbl be req st w)) = captured w"
    and "flushes (snd (processRequest tbl be req st w)) = flushes w"
    using s by (simp_all add: p)
qed

lemma context_K:
  "context_fn sample_users (Some ''K'') = \<lparr>affinity = JStr ''dev-42'', contextError = None\<rparr>"
  by (simp add: context_fn_def trim_K getAffinityFromApiKey_def sample_users_def get_prop_def)

theorem end_of_request_reporting_witness:
  "map message (fst (processRequest sample_users backend_ok (hello_request (Some ''K''))
      malformed_stages empty_world)) = [JStr ''Syntax Error: Expected Name, found <EOF>.'']
   \<and> captured (snd (processRequest sample_users backend_ok (hello_request (Some ''K''))
      malformed_stages empty_world)) = []
   \<and> flushes (snd (processRequest sample_users backend_ok (hello_request (Some ''K''))
      malformed_stages empty_world)) = 0"
proof -
  have a: "contextError (context_fn sample_users (authorization (hello_request (Some ''K'')))) = None
     \<and> parsingError malformed_stages = Some sample_syntax_error"
    by (simp add: hello_request_def context_K malformed_stages_def)
  have f: "message (formatError (enrichError sample_syntax_error)) =
      JStr ''Syntax Error: Expected Name, found <EOF>.''"
    by (simp add: formatError_def enrichError_def sample_syntax_error_def ext_code_def
        get_prop_def set_prop_def delete_prop_def Let_def)
  note th = end_of_request_reporting
      [where tbl = sample_users and req = "hello_request (Some ''K'')" and st = malformed_stages
         and perr = sample_syntax_error and be = backend_ok and w = empty_world,
       THEN conjunct2, THEN conjunct2, THEN conjunct2, rule_format, OF a]
  from th f show ?thesis by (simp add: empty_world_def)
qed

section \<open>Delegation\<close>

lemma delegated_delegateToSchema:
  "delegated (snd (delegateToSchema be call tr w)) = delegated w @ [call]"
  by (simp add: delegateToSchema_def Let_def split: sum.splits option.splits list.splits)

lemma update_fresh_key:
  "k \<notin> fst ` set al \<Longrightarrow> AList.update k v al = al @ [(k, v)]"
  by (induction al) auto

lemma set_update_subset: "set (AList.update k v al) \<subseteq> insert (k, v) (set al)"
  by (induction al) auto

text \<open>
  Claim C3, with the argument under the name the code gives it. Each resolver makes
  one call to the backend, for its own field, whose arguments are the caller's with
  the entry \<open>affinity\<close> set to the affinity of the context: appended as one more
  argument when the caller supplied none of that name. The forwarded arguments hold
  nothing but the caller's own arguments and that entry; the authorization header is
  not among what a resolver reads.
\<close>

theorem affinity_injection:
  "delegated (snd (sayHello be as ctx w)) =
     delegated w @ [\<lparr>operation = ''query'', fieldName = ''sayHello'',
                     args = set_prop ''affinity'' (affinity ctx) as\<rparr>]
   \<and> delegated (snd (someRandomMutation be as ctx w)) =
     delegated w @ [\<lparr>operation = ''mutation'', fieldName = ''someRandomMutation'',
                     args = set_prop ''affinity'' (affinity ctx) as\<rparr>]
   \<and> map_of (set_prop ''affinity'' (affinity ctx) as) = (map_of as)(''affinity'' \<mapsto> affinity ctx)
   \<and> (''affinity'' \<notin> fst ` set as \<longrightarrow>
        set_prop ''affinity'' (affinity ctx) as = as @ [(''affinity'', affinity ctx)])
   \<and> set (set_prop ''affinity'' (affinity ctx) as) \<subseteq> set as \<union> {(''affinity'', affinity ctx)}"
  by (simp add: sayHello_def someRandomMutation_def delegated_delegateToSchema set_prop_def
      update_conv' update_fresh_key set_update_subset)

theorem affinity_injection_witness:
  "delegated (snd (sayHello backend_ok [(''name'', JStr ''x'')]
       (context_fn sample_users (Some ''K'')) empty_world)) =
     [\<lparr>operation = ''query'', fieldName = ''sayHello'',
       args = [(''name'', JStr ''x''), (''affinity'', JStr ''dev-42'')]\<rparr>]"
proof -
  have n: "''affinity'' \<notin> fst ` set [(''name'', JStr ''x'')]" by simp
  note th = affinity_injection [where be = backend_ok and as = "[(''name'', JStr ''x'')]"
      and ctx = "context_fn sample_users (Some ''K'')" and w = empty_world]
  from th [THEN conjunct1]
    th [THEN conjunct2, THEN conjunct2, THEN conjunct2, THEN conjunct1, rule_format, OF n]
  show ?thesis by (simp add: context_K empty_world_def)
qed

text \<open>
  For the key \<open>K\<close> of \<open>dev-42\<close> and \<open>sayHello(name: "x")\<close> the backend receives
  \<open>{name: "x", affinity: "dev-42"}\<close>, not the \<open>{name: "x", identity: "dev-42"}\<close> of
  claim C3.
\<close>

theorem identity_argument_name_counterexample:
  "map args (delegated (snd (processRequest sample_users backend_ok (hello_request (Some ''K''))
      hello_stages empty_world))) =
     [[(''name'', JStr ''x''), (''affinity'', JStr ''dev-42'')]]
   \<and> map args (delegated (snd (processRequest sample_users backend_ok (hello_request (Some ''K''))
      hello_stages empty_world))) \<noteq>
     [[(''name'', JStr ''x''), (''identity'', JStr ''dev-42'')]]"
  by code_simp

section \<open>Cold start\<close>

lemma handler_cached: "apolloHandler p \<Longrightarrow> handler introspect p = (p, Completed)"
  by (simp add: handler_def)

lemma serve_cached: "apolloHandler p \<Longrightarrow> serve introspect n p = p"
  by (induction n) (simp_all add: handler_cached)

lemma handler_cold:
  "introspect 0 \<Longrightarrow>
   handler introspect cold_start = (\<lparr>apolloHandler = True, discoveries = 1\<rparr>, Completed)"
  by (simp add: handler_def cold_start_def)

lemma handler_is_run:
  "run introspect [0, 0] (p, [Entered]) =
     (fst (handler introspect p), [snd (handler introspect p)])"
  by (simp add: step_def handler_def split: prod.splits)

text \<open>
  Claim C9, for requests that arrive one after the other. When the first discovery
  succeeds, any number of requests handled in sequence start discovery once; the
  handler is cached after the first, and every later invocation completes on the
  cached handler and changes nothing.
\<close>

theorem sequential_requests_discover_once:
  assumes "introspect 0"
  shows "discoveries (serve introspect (Suc n) cold_start) = 1
       \<and> apolloHandler (serve introspect (Suc n) cold_start)
       \<and> serve introspect (Suc n) cold_start = serve introspect 1 cold_start
       \<and> handler introspect (serve introspect (Suc n) cold_start) =
           (serve introspect (Suc n) cold_start, Completed)"
  using assms by (simp add: handler_cold serve_cached handler_cached)

theorem sequential_requests_discover_once_witness:
  "discoveries (serve (\<lambda>k. True) (Suc 2) cold_start) = 1
   \<and> apolloHandler (serve (\<lambda>k. True) (Suc 2) cold_start)"
proof -
  have a: "(\<lambda>k::nat. True) 0" by simp
  note th = sequential_requests_discover_once [where introspect = "\<lambda>k. True" and n = 2, OF a]
  from th [THEN conjunct1] th [THEN conjunct2, THEN conjunct1]
  show ?thesis by (intro conjI)
qed

text \<open>
  Two invocations that are both entered before either has set \<open>apolloHandler\<close> each
  start a discovery: the check and the assignment are separated by the \<open>await\<close>.
\<close>

theorem concurrent_cold_start_counterexample:
  "discoveries (fst (run (\<lambda>k. True) [0, 1, 0, 1] (cold_start, [Entered, Entered]))) = 2
   \<and> snd (run (\<lambda>k. True) [0, 1, 0, 1] (cold_start, [Entered, Entered])) = [Completed, Completed]"
  by (simp add: step_def cold_start_def)

end
